theory Spec2Isabelle
  imports Complex_Main "HOL-Library.Multiset"
begin

section \<open>JavaScript values shared by the pages\<close>

text \<open>
  An exception that leaves an event handler is a value: every handler below returns
  \<open>js_error + state\<close>. No handler of the repository mutates its page before the statement
  that throws, so the state at the throw is the state the handler was called in.
\<close>

datatype js_error = TypeError | SyntaxError

text \<open>
  \<open>!x\<close> on a value that is \<open>null\<close> or a string: \<open>null\<close> and the empty string are falsy.
\<close>

definition truthy :: "string option \<Rightarrow> bool" where
  "truthy v = (case v of None \<Rightarrow> False | Some s \<Rightarrow> s \<noteq> [])"

text \<open>
  \<open>x || y\<close> on a whole number \<open>x\<close>: zero is falsy. The character sheet holds whole numbers,
  modelled as \<open>int\<close>; \<open>NaN\<close> only arises from a prompt and is \<open>None\<close> there.
\<close>

definition js_or :: "int \<Rightarrow> int \<Rightarrow> int" where
  "js_or x y = (if x = 0 then y else x)"

text \<open>\<open>xs.find(p)\<close> followed by a mutation of the object found: the first match is updated.\<close>

fun update_first :: "('a \<Rightarrow> bool) \<Rightarrow> ('a \<Rightarrow> 'a) \<Rightarrow> 'a list \<Rightarrow> 'a list" where
  "update_first p f [] = []"
| "update_first p f (x # xs) = (if p x then f x # xs else x # update_first p f xs)"


section \<open>Character mechanics (characters.js)\<close>

record character =
  cid :: string
  cname :: string
  cls :: string
  level :: int
  hp :: int
  maxHp :: int
  ac :: int
  speed :: int
  hitDie :: int
  hitDice :: int
  con :: int
  conditions :: "string list"
  spells :: "(string \<times> bool) list"
  concentratingOn :: "string option"

record char_page =
  characters :: "character list"
  selectedCharId :: "string option"

text \<open>\<open>calcProf(level)\<close>, the proficiency progression.\<close>

definition calcProf :: "int \<Rightarrow> int" where
  "calcProf lv =
     (if lv \<ge> 17 then 6
      else if lv \<ge> 13 then 5
      else if lv \<ge> 9 then 4
      else if lv \<ge> 5 then 3
      else 2)"

text \<open>\<open>abilityMod(score) = Math.floor((score - 10) / 2)\<close>.\<close>

definition abilityMod :: "int \<Rightarrow> int" where
  "abilityMod score = \<lfloor>(of_int (score - 10) :: rat) / 2\<rfloor>"

text \<open>
  The body of the damage handler on the character found. \<open>d20\<close> is the outcome of
  \<open>rollD20()\<close>, which the handler draws only when the character is concentrating.
\<close>

definition damage :: "int \<Rightarrow> int \<Rightarrow> character \<Rightarrow> character" where
  "damage dmg d20 c =
     (let c1 = c\<lparr>hp := max 0 (hp c - dmg)\<rparr> in
      if truthy (concentratingOn c1) then
        (let dc = max 10 \<lfloor>(of_int dmg :: rat) / 2\<rfloor>;
             roll = d20 + abilityMod (con c1) + calcProf (level c1);
             success = (roll \<ge> dc)
         in if \<not> success then c1\<lparr>concentratingOn := None\<rparr> else c1)
      else c1)"

text \<open>
  The click handlers. \<open>input\<close> is \<open>Number(prompt(...))\<close>, with \<open>None\<close> for \<open>NaN\<close>. A selected id
  that no character carries makes \<open>characters.find\<close> return \<open>undefined\<close>, and the first field
  access on it throws.
\<close>

definition btnDamage_click :: "int option \<Rightarrow> int \<Rightarrow> char_page \<Rightarrow> js_error + char_page" where
  "btnDamage_click input d20 s =
     (if \<not> truthy (selectedCharId s) then Inr s
      else case input of
        None \<Rightarrow> Inr s
      | Some dmg \<Rightarrow>
          (case find (\<lambda>x. Some (cid x) = selectedCharId s) (characters s) of
             None \<Rightarrow> Inl TypeError
           | Some c \<Rightarrow>
               Inr (s\<lparr>characters :=
                      update_first (\<lambda>x. Some (cid x) = selectedCharId s) (damage dmg d20)
                        (characters s)\<rparr>)))"

definition heal :: "int \<Rightarrow> character \<Rightarrow> character" where
  "heal amt c = c\<lparr>hp := min (maxHp c) (hp c + amt)\<rparr>"

definition btnHeal_click :: "int option \<Rightarrow> char_page \<Rightarrow> js_error + char_page" where
  "btnHeal_click input s =
     (if \<not> truthy (selectedCharId s) then Inr s
      else case input of
        None \<Rightarrow> Inr s
      | Some amt \<Rightarrow>
          (case find (\<lambda>x. Some (cid x) = selectedCharId s) (characters s) of
             None \<Rightarrow> Inl TypeError
           | Some c \<Rightarrow>
               Inr (s\<lparr>characters :=
                      update_first (\<lambda>x. Some (cid x) = selectedCharId s) (heal amt)
                        (characters s)\<rparr>)))"

text \<open>
  Short rest. \<open>maxPossible\<close> is computed before the prompt; \<open>spent\<close> is the number typed, which
  the handler floors, so it is a rational here. \<open>rolls i\<close> is the outcome of the \<open>i\<close>-th call of
  \<open>rollDie(c.hitDie)\<close> in the loop.
\<close>

definition maxPossible :: "character \<Rightarrow> int" where
  "maxPossible c = js_or (hitDice c) (max 1 \<lfloor>(of_int (level c) :: rat) / 2\<rfloor>)"

definition toSpend :: "rat \<Rightarrow> character \<Rightarrow> int" where
  "toSpend spent c = min (maxPossible c) \<lfloor>spent\<rfloor>"

definition rest_total :: "(nat \<Rightarrow> int) \<Rightarrow> int \<Rightarrow> int \<Rightarrow> int" where
  "rest_total rolls cn n =
     foldl (\<lambda>total i. total + max 0 (rolls i + abilityMod cn)) 0 [0..<nat n]"

definition shortRest :: "rat \<Rightarrow> (nat \<Rightarrow> int) \<Rightarrow> character \<Rightarrow> character" where
  "shortRest spent rolls c =
     (let total = rest_total rolls (con c) (toSpend spent c) in
      c\<lparr>hp := min (maxHp c) (hp c + total),
        hitDice := js_or (hitDice c) (maxPossible c) - toSpend spent c\<rparr>)"

definition btnShortRest_click ::
  "rat option \<Rightarrow> (nat \<Rightarrow> int) \<Rightarrow> char_page \<Rightarrow> js_error + char_page" where
  "btnShortRest_click input rolls s =
     (if \<not> truthy (selectedCharId s) then Inr s
      else case find (\<lambda>x. Some (cid x) = selectedCharId s) (characters s) of
        None \<Rightarrow> Inl TypeError
      | Some c \<Rightarrow>
          (case input of
             None \<Rightarrow> Inr s
           | Some spent \<Rightarrow>
               if spent \<le> 0 then Inr s
               else Inr (s\<lparr>characters :=
                           update_first (\<lambda>x. Some (cid x) = selectedCharId s)
                             (shortRest spent rolls) (characters s)\<rparr>)))"

text \<open>Long rest.\<close>

definition longRest :: "character \<Rightarrow> character" where
  "longRest c =
     (let recovered = \<lceil>(of_int (js_or (level c) 1) :: rat) / 2\<rceil> in
      c\<lparr>hp := maxHp c,
        hitDice := min (level c) (js_or (hitDice c) 0 + recovered),
        conditions := [],
        concentratingOn := None\<rparr>)"

definition btnLongRest_click :: "char_page \<Rightarrow> js_error + char_page" where
  "btnLongRest_click s =
     (if \<not> truthy (selectedCharId s) then Inr s
      else case find (\<lambda>x. Some (cid x) = selectedCharId s) (characters s) of
        None \<Rightarrow> Inl TypeError
      | Some c \<Rightarrow>
          Inr (s\<lparr>characters :=
                 update_first (\<lambda>x. Some (cid x) = selectedCharId s) longRest
                   (characters s)\<rparr>))"

text \<open>
  The separate concentration button: the same difficulty, the roll without the proficiency
  bonus. A character that is not concentrating gets an alert and is left as it is.
\<close>

definition conCheck :: "int \<Rightarrow> int \<Rightarrow> character \<Rightarrow> character" where
  "conCheck dmg d20 c =
     (if \<not> truthy (concentratingOn c) then c
      else
        (let dc = max 10 \<lfloor>(of_int dmg :: rat) / 2\<rfloor>;
             roll = d20 + abilityMod (con c)
         in if roll \<ge> dc then c else c\<lparr>concentratingOn := None\<rparr>))"

definition btnConCheck_click :: "int option \<Rightarrow> int \<Rightarrow> char_page \<Rightarrow> js_error + char_page" where
  "btnConCheck_click input d20 s =
     (if \<not> truthy (selectedCharId s) then Inr s
      else case input of
        None \<Rightarrow> Inr s
      | Some dmg \<Rightarrow>
          if dmg \<le> 0 then Inr s
          else
            (case find (\<lambda>x. Some (cid x) = selectedCharId s) (characters s) of
               None \<Rightarrow> Inl TypeError
             | Some c \<Rightarrow>
                 Inr (s\<lparr>characters :=
                        update_first (\<lambda>x. Some (cid x) = selectedCharId s) (conCheck dmg d20)
                          (characters s)\<rparr>)))"

text \<open>The invariant of the hit points.\<close>

definition hp_ok :: "character \<Rightarrow> bool" where
  "hp_ok c = (0 \<le> hp c \<and> hp c \<le> maxHp c)"

text \<open>The cleric of the seed data, hurt and concentrating, as in the spec's example.\<close>

definition seren :: character where
  "seren = \<lparr>cid = ''c_seren'', cname = ''Seren'', cls = ''Cleric'', level = 3, hp = 20,
     maxHp = 22, ac = 18, speed = 30, hitDie = 8, hitDice = 3, con = 14, conditions = [],
     spells = [(''Bless'', True)], concentratingOn = Some ''Bless''\<rparr>"


definition seren_page :: char_page where
  "seren_page = \<lparr>characters = [seren], selectedCharId = Some ''c_seren''\<rparr>"

text \<open>A level 4 character who has spent every hit die.\<close>

definition worn_out :: character where
  "worn_out = seren\<lparr>level := 4, hp := 5, hitDice := 0\<rparr>"


section \<open>Quest tracker (the quests page script)\<close>

text \<open>
  Timestamps are written by \<open>nowTs()\<close> as ISO strings and read back by \<open>new Date(ts)\<close>; a
  timestamp is modelled by the number \<open>new Date(ts)\<close> yields, in milliseconds.
\<close>

datatype quest_status = Active | Completed | Failed

record quest_event =
  eid :: string
  ets :: int
  etype :: string
  etext :: string
  elocation :: "string option"

text \<open>\<open>events\<close> is \<open>None\<close> for a stored quest without the field (\<open>q.events || []\<close>).\<close>

record quest =
  qid :: string
  title :: string
  desc :: string
  status :: quest_status
  assigned :: string
  created :: int
  events :: "quest_event list option"


definition events_or_empty :: "quest \<Rightarrow> quest_event list" where
  "events_or_empty q = (case events q of None \<Rightarrow> [] | Some es \<Rightarrow> es)"

text \<open>
  \<open>s.trim()\<close> on the white space a \<open>char\<close> can hold: the blank, tab, line feed, vertical
  tab, form feed, carriage return and the no-break space (code unit \<open>0xA0\<close>).
\<close>

definition is_space :: "char \<Rightarrow> bool" where
  "is_space c =
     (c \<in> set [CHR '' '', CHR 0x09, CHR 0x0A, CHR 0x0B, CHR 0x0C, CHR 0x0D, CHR 0xA0])"

definition trim :: "string \<Rightarrow> string" where
  "trim s = rev (dropWhile is_space (rev (dropWhile is_space s)))"












definition vault :: quest where
  "vault = \<lparr>qid = ''q_vault'', title = ''The Whispering Vault'',
     desc = ''Investigate the sealed vault beneath Greywatch'', status = Active,
     assigned = ''Kyra'', created = 1000,
     events = Some [\<lparr>eid = ''q_trapdoor'', ets = 2000, etype = ''milestone'',
       etext = ''Party discovered a hidden trapdoor under the shrine'',
       elocation = Some ''Greywatch''\<rparr>]\<rparr>"

definition lighthouse :: quest where
  "lighthouse = \<lparr>qid = ''q_light'', title = ''Old Lighthouse Mystery'',
     desc = ''Strange lights at the lighthouse'', status = Active, assigned = ''Thorne'',
     created = 2000, events = Some []\<rparr>"



subsection \<open>Global timeline\<close>

text \<open>An aggregated entry: the fields of the event, and the title of its quest.\<close>

record timeline_entry =
  tid :: string
  tts :: int
  ttype :: string
  ttext :: string
  tlocation :: "string option"
  tquest :: string

text \<open>\<open>{ ...ev, quest: q.title }\<close>\<close>

definition entry_of_event :: "string \<Rightarrow> quest_event \<Rightarrow> timeline_entry" where
  "entry_of_event t ev =
     \<lparr>tid = eid ev, tts = ets ev, ttype = etype ev, ttext = etext ev,
      tlocation = elocation ev, tquest = t\<rparr>"

definition created_entry :: "quest \<Rightarrow> timeline_entry" where
  "created_entry q =
     \<lparr>tid = ''c_'' @ qid q, tts = created q, ttype = ''quest-created'',
      ttext = ''Quest created'', tlocation = None, tquest = title q\<rparr>"

text \<open>The body of \<open>quests.forEach\<close>: the events are pushed first, then the creation entry.\<close>

definition push_quest :: "timeline_entry list \<Rightarrow> quest \<Rightarrow> timeline_entry list" where
  "push_quest allEvents q =
     foldl (\<lambda>acc ev. acc @ [entry_of_event (title q) ev]) allEvents (events_or_empty q)
       @ [created_entry q]"

text \<open>
  \<open>Array.prototype.sort\<close> with a comparator is a stable sort: \<open>a\<close> stays before \<open>b\<close> unless
  the comparator is positive on them. With a comparator that is a consistent order, as the
  difference of two numbers is, every stable sort returns the same array; it is written
  here as the insertion of each element, from the last to the first, before the first
  element it need not follow.
\<close>

fun js_insert :: "('a \<Rightarrow> 'a \<Rightarrow> int) \<Rightarrow> 'a \<Rightarrow> 'a list \<Rightarrow> 'a list" where
  "js_insert cmp x [] = [x]"
| "js_insert cmp x (y # ys) = (if cmp x y \<le> 0 then x # y # ys else y # js_insert cmp x ys)"

definition js_sort :: "('a \<Rightarrow> 'a \<Rightarrow> int) \<Rightarrow> 'a list \<Rightarrow> 'a list" where
  "js_sort cmp xs = foldr (js_insert cmp) xs []"

text \<open>\<open>(a, b) => new Date(b.ts) - new Date(a.ts)\<close>\<close>

definition by_ts_desc :: "timeline_entry \<Rightarrow> timeline_entry \<Rightarrow> int" where
  "by_ts_desc a b = tts b - tts a"

text \<open>\<open>renderGlobalTimeline\<close>: the entries in the order they are rendered.\<close>

definition renderGlobalTimeline :: "quest list \<Rightarrow> timeline_entry list" where
  "renderGlobalTimeline qs = js_sort by_ts_desc (foldl push_quest [] qs)"

text \<open>
  The aggregation as the spec words it: for each quest its events verbatim and one
  synthetic creation entry, concatenated over the quests.
\<close>

definition event_of_entry :: "timeline_entry \<Rightarrow> quest_event" where
  "event_of_entry e =
     \<lparr>eid = tid e, ets = tts e, etype = ttype e, etext = ttext e, elocation = tlocation e\<rparr>"

definition quest_entries :: "quest \<Rightarrow> timeline_entry list" where
  "quest_entries q = map (entry_of_event (title q)) (events_or_empty q) @ [created_entry q]"





section \<open>The session page (the main log client and the live client)\<close>

text \<open>
  The page is its transcription state and the children of three elements: the log, the
  timeline rail (\<open>None\<close> when the page has no rail, which \<open>addTimelineEvent\<close> tests) and the
  quest list; the live client adds the toast root, which it tests as well. Markup is kept
  as structured values, one constructor per template of the scripts; a value interpolated
  into a template is kept as the value. Strings hold the text without the emoji of the
  source.
\<close>

datatype tx_state = Idle | Recording | Paused

datatype json =
    JNull
  | JBool bool
  | JNum rat
  | JStr string
  | JArr "json list"
  | JObj "(string \<times> json) list"

datatype log_message =
    SystemMsg string string string
  | StartedMsg string
  | QuestUpdateMsg string "json option" "json option"
  | WorldUpdateMsg string "json option"
  | NarratorMsg string "json option" "json option"
  | PlayerMsg string string string string
  | SummaryMsg json

record timeline_item =
  ttime :: string
  badge :: string
  icon :: string
  ititle :: "json option"
  imeta :: string
  item_index :: nat

datatype quest_child =
    QuestDiv string "json option" "json option"
  | QuestListItem string string

datatype toast = Toast "json option" string

record session_page =
  txState :: tx_state
  logEl :: "log_message list"
  rail :: "timeline_item list option"
  questList :: "quest_child list"
  toastRoot :: "toast list option"

text \<open>\<open>setState(next)\<close>; the labels and colours it sets are functions of the state.\<close>

definition setState :: "tx_state \<Rightarrow> session_page \<Rightarrow> session_page" where
  "setState next s = s\<lparr>txState := next\<rparr>"

text \<open>\<open>addLog(meta, text)\<close> appends; \<open>now\<close> is the time of the call.\<close>

definition addLog :: "string \<Rightarrow> string \<Rightarrow> string \<Rightarrow> session_page \<Rightarrow> session_page" where
  "addLog meta text now s = s\<lparr>logEl := logEl s @ [SystemMsg now meta text]\<rparr>"

text \<open>\<open>addLogMessage(messageHtml)\<close> of the main log client inserts at the top.\<close>

definition addLogMessage :: "log_message \<Rightarrow> session_page \<Rightarrow> session_page" where
  "addLogMessage m s = s\<lparr>logEl := m # logEl s\<rparr>"

text \<open>The three controls, in the small client (\<open>dungeon-scribe/js/main.js\<close>).\<close>

definition ds_btnStart_click :: "string \<Rightarrow> session_page \<Rightarrow> session_page" where
  "ds_btnStart_click now s =
     (if txState s = Idle \<or> txState s = Paused
      then addLog ''System'' ''<em>Transcription started.</em>'' now (setState Recording s)
      else s)"

definition btnPause_click :: "string \<Rightarrow> session_page \<Rightarrow> session_page" where
  "btnPause_click now s =
     (if txState s = Recording
      then addLog ''System'' ''<em>Transcription paused.</em>'' now (setState Paused s)
      else if txState s = Paused
      then addLog ''System'' ''<em>Transcription resumed.</em>'' now (setState Recording s)
      else s)"

definition btnStop_click :: "string \<Rightarrow> session_page \<Rightarrow> session_page" where
  "btnStop_click now s =
     (if txState s \<noteq> Idle
      then addLog ''System'' ''<em>Transcription stopped.</em>'' now (setState Idle s)
      else s)"

text \<open>
  The main log client has the same pause and stop handlers; its start handler writes the
  "Transcription started." block through \<open>addLogMessage\<close>.
\<close>

definition btnStart_click :: "string \<Rightarrow> session_page \<Rightarrow> session_page" where
  "btnStart_click now s =
     (if txState s = Idle \<or> txState s = Paused
      then addLogMessage (StartedMsg now) (setState Recording s)
      else s)"

datatype tx_action = Start | PauseResume | Stop

fun ds_click :: "tx_action \<Rightarrow> string \<Rightarrow> session_page \<Rightarrow> session_page" where
  "ds_click Start now s = ds_btnStart_click now s"
| "ds_click PauseResume now s = btnPause_click now s"
| "ds_click Stop now s = btnStop_click now s"

fun click :: "tx_action \<Rightarrow> string \<Rightarrow> session_page \<Rightarrow> session_page" where
  "click Start now s = btnStart_click now s"
| "click PauseResume now s = btnPause_click now s"
| "click Stop now s = btnStop_click now s"

text \<open>
  \<open>addQuest(title, update, icon)\<close>: prepend, then remove the last child while there are more
  than two.
\<close>

function keep_two :: "'a list \<Rightarrow> 'a list" where
  "keep_two xs = (if length xs > 2 then keep_two (butlast xs) else xs)"
  by pat_completeness auto
termination
  by (relation "measure length") auto

declare keep_two.simps [simp del]

definition addQuest ::
  "json option \<Rightarrow> json option \<Rightarrow> string \<Rightarrow> session_page \<Rightarrow> session_page" where
  "addQuest t update ic s = s\<lparr>questList := keep_two (QuestDiv ic t update # questList s)\<rparr>"

text \<open>\<open>addTimelineEvent(time, type, title, meta, icon)\<close>: nothing without a rail.\<close>

definition addTimelineEvent ::
  "string \<Rightarrow> string \<Rightarrow> json option \<Rightarrow> string \<Rightarrow> string \<Rightarrow> session_page \<Rightarrow> session_page" where
  "addTimelineEvent time type t meta ic s =
     (case rail s of
        None \<Rightarrow> s
      | Some items \<Rightarrow>
          s\<lparr>rail := Some (\<lparr>ttime = time, badge = type, icon = ic, ititle = t, imeta = meta,
                             item_index = length items\<rparr> # items)\<rparr>)"

text \<open>
  A frame of the socket is a text that \<open>JSON.parse\<close> rejects, or the value it denotes.
\<close>

datatype payload = Malformed string | Wellformed json

definition JSON_parse :: "payload \<Rightarrow> js_error + json" where
  "JSON_parse data = (case data of Malformed txt \<Rightarrow> Inl SyntaxError | Wellformed v \<Rightarrow> Inr v)"

text \<open>
  \<open>msg.k\<close> for the keys the handlers read, on a value other than \<open>null\<close>: the last binding
  of an object, \<open>undefined\<close> (\<open>None\<close>) on anything else.
\<close>

fun js_prop :: "json \<Rightarrow> string \<Rightarrow> json option" where
  "js_prop (JObj kvs) k = map_of (rev kvs) k"
| "js_prop v k = None"

definition js_truthy :: "json option \<Rightarrow> bool" where
  "js_truthy v =
     (case v of
        None \<Rightarrow> False
      | Some JNull \<Rightarrow> False
      | Some (JBool b) \<Rightarrow> b
      | Some (JNum n) \<Rightarrow> n \<noteq> 0
      | Some (JStr s) \<Rightarrow> s \<noteq> []
      | Some (JArr xs) \<Rightarrow> True
      | Some (JObj kvs) \<Rightarrow> True)"

text \<open>String methods, on the characters a \<open>char\<close> can hold.\<close>

definition startsWith :: "string \<Rightarrow> string \<Rightarrow> bool" where
  "startsWith s p = (take (length p) s = p)"

text \<open>\<open>s.split(":")[1]\<close>: the piece after the first colon, \<open>undefined\<close> without a colon.\<close>

definition split_second :: "string \<Rightarrow> string option" where
  "split_second s =
     (if CHR '':'' \<in> set s
      then Some (takeWhile (\<lambda>c. c \<noteq> CHR '':'') (tl (dropWhile (\<lambda>c. c \<noteq> CHR '':'') s)))
      else None)"

definition to_upper :: "char \<Rightarrow> char" where
  "to_upper c =
     (let n = (of_char c :: nat) in if 97 \<le> n \<and> n \<le> 122 then char_of (n - 32) else c)"

definition to_lower :: "char \<Rightarrow> char" where
  "to_lower c =
     (let n = (of_char c :: nat) in if 65 \<le> n \<and> n \<le> 90 then char_of (n + 32) else c)"

definition formatMessage :: "string \<Rightarrow> string \<Rightarrow> string" where
  "formatMessage charName text =
     (let nm = map to_upper (take 1 charName) @ drop 1 charName;
          content = map to_lower (take 1 text) @ drop 1 text
      in nm @ '' '' @ content)"

text \<open>
  \<open>ws.onmessage\<close> of the main log client. \<open>JSON.parse\<close> is not guarded; \<open>msg.heading\<close> throws
  on \<open>null\<close>; \<open>msg.heading.startsWith\<close> throws unless the heading is a string;
  \<open>.split(":")[1].trim()\<close> throws without a colon; \<open>msg.content.replace\<close> throws unless the
  content is a string.
\<close>

definition ws_onmessage :: "string \<Rightarrow> payload \<Rightarrow> session_page \<Rightarrow> js_error + session_page" where
  "ws_onmessage timestamp data s =
     (case JSON_parse data of
        Inl e \<Rightarrow> Inl e
      | Inr msg \<Rightarrow>
          if msg = JNull then Inl TypeError
          else if js_prop msg ''heading'' = Some (JStr ''Quest Update'') then
            Inr (addQuest (js_prop msg ''quest_name'') (js_prop msg ''content'') ''magnifier''
                  (addTimelineEvent timestamp ''Quest'' (js_prop msg ''quest_name'')
                     ''Quest Updated'' []
                     (addLogMessage
                        (QuestUpdateMsg timestamp (js_prop msg ''quest_name'') (js_prop msg ''content''))
                        s)))
          else if js_prop msg ''heading'' = Some (JStr ''World State Update'') then
            Inr (addLogMessage (WorldUpdateMsg timestamp (js_prop msg ''content''))
                  (addTimelineEvent timestamp ''Event'' (js_prop msg ''location'')
                     ''Location Changed'' [] s))
          else
            (case js_prop msg ''heading'' of
               Some (JStr heading) \<Rightarrow>
                 if startsWith heading ''Character Action''
                    \<or> startsWith heading ''Character Outcome''
                 then
                   (case split_second heading of
                      None \<Rightarrow> Inl TypeError
                    | Some part \<Rightarrow>
                        (let charName = trim part;
                             meta = (if startsWith heading ''Character Action''
                                     then ''Action'' else ''Outcome'')
                         in if map to_lower charName = ''narrator'' then
                              Inr (addLogMessage
                                    (NarratorMsg timestamp
                                       (if js_truthy (js_prop msg ''location'')
                                        then js_prop msg ''location'' else None)
                                       (js_prop msg ''content''))
                                    s)
                            else
                              (case js_prop msg ''content'' of
                                 Some (JStr c) \<Rightarrow>
                                   Inr (addLogMessage
                                         (PlayerMsg timestamp (map to_upper (take 1 charName))
                                            meta (formatMessage charName c))
                                         s)
                               | _ \<Rightarrow> Inl TypeError)))
                 else Inr s
             | _ \<Rightarrow> Inl TypeError))"

text \<open>A run of frames, one handler call each; an uncaught exception ends that call only.\<close>

fun ws_run :: "(string \<times> payload) list \<Rightarrow> session_page \<Rightarrow> session_page" where
  "ws_run [] s = s"
| "ws_run ((timestamp, data) # rest) s =
     (case ws_onmessage timestamp data s of
        Inl e \<Rightarrow> ws_run rest s
      | Inr s' \<Rightarrow> ws_run rest s')"

text \<open>
  \<open>uiWs.onmessage\<close> of the live client: the whole body is inside \<open>try { ... } catch {}\<close>, so
  the handler returns whatever happens, with the page as it was at the throw.
  \<open>escapeHtml(s)\<close> calls \<open>s.replace\<close>, which only a string has.
\<close>

definition escapeHtml :: "string \<Rightarrow> string" where
  "escapeHtml s =
     concat (map (\<lambda>c. if c = CHR ''&'' then ''&amp;''
                       else if c = CHR ''<'' then ''&lt;''
                       else if c = CHR ''>'' then ''&gt;''
                       else if c = CHR 0x22 then ''&quot;''
                       else if c = CHR 0x27 then ''&#39;''
                       else [c]) s)"

definition or_else :: "json option \<Rightarrow> string \<Rightarrow> json" where
  "or_else v d = (if js_truthy v then the v else JStr d)"

definition uiWs_onmessage :: "payload \<Rightarrow> session_page \<Rightarrow> session_page" where
  "uiWs_onmessage data s =
     (case JSON_parse data of
        Inl e \<Rightarrow> s
      | Inr m \<Rightarrow>
          if m = JNull then s
          else
            (let s1 = (if js_prop m ''type'' = Some (JStr ''summary'')
                       then addLogMessage (SummaryMsg (or_else (js_prop m ''text'') [])) s
                       else s)
             in if js_prop m ''heading'' = Some (JStr ''Quest Update'') then
                  (let shown = (if js_truthy (js_prop m ''quest_name'')
                                then js_prop m ''quest_name'' else None);
                       toasted =
                         (case toastRoot s1 of
                            None \<Rightarrow> Some s1
                          | Some ts \<Rightarrow>
                              (case or_else (js_prop m ''content'') [] of
                                 JStr t \<Rightarrow>
                                   Some (s1\<lparr>toastRoot := Some (ts @ [Toast shown (escapeHtml t)])\<rparr>)
                               | _ \<Rightarrow> None))
                   in case toasted of
                        None \<Rightarrow> s1
                      | Some s2 \<Rightarrow>
                          (case (or_else (js_prop m ''quest_name'') ''Quest'',
                                 or_else (js_prop m ''content'') []) of
                             (JStr n, JStr t) \<Rightarrow>
                               s2\<lparr>questList :=
                                    QuestListItem (escapeHtml n) (escapeHtml t) # questList s2\<rparr>
                           | _ \<Rightarrow> s2))
                else s1))"

text \<open>A page with every element and nothing in them, and three quest updates.\<close>

definition empty_page :: session_page where
  "empty_page = \<lparr>txState = Idle, logEl = [], rail = Some [], questList = [], toastRoot = Some []\<rparr>"

definition quest_update :: "string \<Rightarrow> string \<Rightarrow> json" where
  "quest_update n c =
     JObj [(''heading'', JStr ''Quest Update''), (''quest_name'', JStr n), (''content'', JStr c)]"


text \<open>A summary frame, as the narration service sends it: it has no heading.\<close>

definition summary_frame :: json where
  "summary_frame = JObj [(''type'', JStr ''summary''), (''text'', JStr ''The party rests.'')]"


section \<open>Arithmetic of the helpers\<close>

lemma floor_half: "\<lfloor>(of_int d :: rat) / 2\<rfloor> = d div 2"
  using floor_divide_of_int_eq [of d 2, where ?'a = rat] by simp

lemma ceiling_half: "\<lceil>(of_int d :: rat) / 2\<rceil> = (d + 1) div 2"
proof -
  have "\<lceil>(of_int d :: rat) / 2\<rceil> = - ((- d) div 2)"
    using floor_divide_of_int_eq [of "- d" 2, where ?'a = rat] by (simp add: ceiling_def)
  then show ?thesis by presburger
qed

lemma abilityMod_div: "abilityMod score = (score - 10) div 2"
  unfolding abilityMod_def by (rule floor_half)

lemma rest_total_nonneg_aux:
  "0 \<le> acc \<Longrightarrow> 0 \<le> foldl (\<lambda>total i. total + max 0 (rolls i + (m::int))) acc is"
  by (induction "is" arbitrary: acc) simp_all

lemma rest_total_nonneg: "0 \<le> rest_total rolls cn n"
  unfolding rest_total_def by (rule rest_total_nonneg_aux) simp

lemma rest_total_foldl_sum:
  "foldl (\<lambda>total i. total + max 0 (rolls i + (m::int))) acc is
     = acc + (\<Sum>i\<leftarrow>is. max 0 (rolls i + m))"
  by (induction "is" arbitrary: acc) simp_all

lemma rest_total_sum:
  "rest_total rolls cn n = (\<Sum>i\<leftarrow>[0..<nat n]. max 0 (rolls i + (cn - 10) div 2))"
  unfolding rest_total_def by (simp add: rest_total_foldl_sum abilityMod_div)

lemma rest_total_none: "n \<le> 0 \<Longrightarrow> rest_total rolls cn n = 0"
  unfolding rest_total_def by simp

lemma set_update_first: "set (update_first p f xs) \<subseteq> set xs \<union> f ` set xs"
  by (induction xs) auto

lemma update_first_preserves:
  assumes "\<forall>x\<in>set xs. P x" and "\<And>x. P x \<Longrightarrow> P (f x)"
  shows "\<forall>x\<in>set (update_first p f xs). P x"
  using assms set_update_first [of p f xs] by auto


lemma hp_ok_damage: "0 \<le> d \<Longrightarrow> hp_ok c \<Longrightarrow> hp_ok (damage d r c)"
  by (auto simp: hp_ok_def damage_def Let_def)

lemma hp_ok_heal: "0 \<le> amt \<Longrightarrow> hp_ok c \<Longrightarrow> hp_ok (heal amt c)"
  by (auto simp: hp_ok_def heal_def)

lemma hp_ok_shortRest: "hp_ok c \<Longrightarrow> hp_ok (shortRest spent rolls c)"
  using rest_total_nonneg [of rolls "con c" "toSpend spent c"]
  by (auto simp: hp_ok_def shortRest_def Let_def)

lemma hp_ok_longRest: "hp_ok c \<Longrightarrow> hp_ok (longRest c)"
  by (auto simp: hp_ok_def longRest_def Let_def)


section \<open>Claims about the character mechanics\<close>

text \<open>
  C5. Damage \<open>d\<close> sets the hit points to \<open>max(0, hp - d)\<close>. When the character is
  concentrating, a check against the difficulty \<open>max(10, floor(d / 2))\<close> is made; the roll is
  the d20 plus the Constitution modifier, plus the proficiency bonus in the damage handler
  and without it in the concentration button's handler. Concentration is cleared exactly
  when the roll is below the difficulty, and is left alone otherwise and when the character
  was not concentrating.
\<close>

theorem damage_concentration:
  "hp (damage d r c) = max 0 (hp c - d) \<and>
   concentratingOn (damage d r c) =
     (if truthy (concentratingOn c) \<and>
         r + abilityMod (con c) + calcProf (level c) < max 10 (d div 2)
      then None else concentratingOn c) \<and>
   concentratingOn (conCheck d r c) =
     (if truthy (concentratingOn c) \<and> r + abilityMod (con c) < max 10 (d div 2)
      then None else concentratingOn c) \<and>
   hp (conCheck d r c) = hp c"
  by (auto simp add: damage_def conCheck_def Let_def floor_half not_le)

text \<open>
  The spec's example: damage 6 on a concentrating character with Constitution 14 at level 3
  (modifier 2, proficiency 2) has difficulty 10. A d20 of 3 gives 7 and clears
  concentration, a d20 of 6 gives 10 and keeps it; the button's roll is 9 and 10 for a d20 of
  7 and 8.
\<close>

theorem damage_concentration_witness:
  "max 10 (6 div 2) = (10::int) \<and>
   hp (damage 6 3 seren) = 14 \<and> concentratingOn (damage 6 3 seren) = None \<and>
   concentratingOn (damage 6 6 seren) = Some ''Bless'' \<and>
   concentratingOn (conCheck 6 7 seren) = None \<and>
   concentratingOn (conCheck 6 8 seren) = Some ''Bless''"
  using damage_concentration [of 6 3 seren] damage_concentration [of 6 6 seren]
    damage_concentration [of 6 7 seren] damage_concentration [of 6 8 seren]
  by (simp add: seren_def abilityMod_div calcProf_def truthy_def)

text \<open>
  C7. After a long rest the hit points equal the maximum, the hit dice are
  \<open>min(L, h + ceil(L / 2))\<close>, the conditions are empty and concentration is cleared. The
  handler reads the level as \<open>level || 1\<close>, which differs from the level only at level 0, and
  there only for a negative count of hit dice.
\<close>

theorem long_rest:
  assumes "level c \<noteq> 0 \<or> 0 \<le> hitDice c"
  shows "hp (longRest c) = maxHp c \<and>
         hitDice (longRest c) =
           min (level c) (hitDice c + \<lceil>(of_int (level c) :: rat) / 2\<rceil>) \<and>
         conditions (longRest c) = [] \<and>
         concentratingOn (longRest c) = None"
  using assms by (auto simp: longRest_def Let_def js_or_def ceiling_half)

theorem long_rest_witness:
  "hp (longRest (seren\<lparr>level := 4, hitDice := 1\<rparr>)) = 22 \<and>
   hitDice (longRest (seren\<lparr>level := 4, hitDice := 1\<rparr>)) = 3 \<and>
   conditions (longRest (seren\<lparr>level := 4, hitDice := 1\<rparr>)) = [] \<and>
   concentratingOn (longRest (seren\<lparr>level := 4, hitDice := 1\<rparr>)) = None"
  using long_rest [of "seren\<lparr>level := 4, hitDice := 1\<rparr>"]
  by (simp add: seren_def ceiling_half)

text \<open>
  C8. The claim says that a short rest spends at most the current number of hit dice, so
  that a character with none regains nothing. The handler reads the number of available
  dice as \<open>c.hitDice || Math.max(1, Math.floor(c.level / 2))\<close>, and 0 is falsy: the level 4
  character with no hit dice left and 5 hit points, asked to spend one die that rolls 5,
  regains 7 hit points and leaves the rest with one hit die.
\<close>

theorem short_rest_without_hit_dice:
  "hitDice worn_out = 0 \<and> hp worn_out = 5 \<and> toSpend 1 worn_out = 1 \<and>
   shortRest 1 (\<lambda>_. 5) worn_out = worn_out\<lparr>hp := 12, hitDice := 1\<rparr>"
  by (simp add: worn_out_def seren_def shortRest_def toSpend_def maxPossible_def js_or_def
      floor_half rest_total_sum)

text \<open>With a hit die left, the short rest is what C8 says.\<close>

lemma short_rest_with_hit_dice:
  assumes "0 < hitDice c" and "0 < spent"
  shows "toSpend spent c = min (hitDice c) \<lfloor>spent\<rfloor> \<and>
         0 \<le> toSpend spent c \<and> toSpend spent c \<le> hitDice c \<and>
         hp (shortRest spent rolls c) =
           min (maxHp c)
             (hp c + (\<Sum>i\<leftarrow>[0..<nat (toSpend spent c)]. max 0 (rolls i + (con c - 10) div 2))) \<and>
         hitDice (shortRest spent rolls c) = hitDice c - toSpend spent c"
  using assms
  by (auto simp: shortRest_def toSpend_def maxPossible_def js_or_def rest_total_sum Let_def)

text \<open>
  C9. When every character of the page has \<open>0 \<le> hp \<le> maxHp\<close>, so has every character
  after a click on damage or heal with a non-negative amount, on short rest with any answer
  to the prompt and any dice, and on long rest.
\<close>

theorem hp_invariant:
  assumes "\<forall>c\<in>set (characters s). hp_ok c"
  shows "(0 \<le> d \<and> btnDamage_click (Some d) r s = Inr s' \<longrightarrow>
            (\<forall>c\<in>set (characters s'). hp_ok c)) \<and>
         (0 \<le> amt \<and> btnHeal_click (Some amt) s = Inr s' \<longrightarrow>
            (\<forall>c\<in>set (characters s'). hp_ok c)) \<and>
         (btnShortRest_click input rolls s = Inr s' \<longrightarrow>
            (\<forall>c\<in>set (characters s'). hp_ok c)) \<and>
         (btnLongRest_click s = Inr s' \<longrightarrow> (\<forall>c\<in>set (characters s'). hp_ok c))"
proof (intro conjI impI)
  assume "0 \<le> d \<and> btnDamage_click (Some d) r s = Inr s'"
  then show "\<forall>c\<in>set (characters s'). hp_ok c"
    using update_first_preserves [OF assms, of "damage d r"] assms
    by (auto simp: btnDamage_click_def hp_ok_damage split: if_splits option.splits)
next
  assume "0 \<le> amt \<and> btnHeal_click (Some amt) s = Inr s'"
  then show "\<forall>c\<in>set (characters s'). hp_ok c"
    using update_first_preserves [OF assms, of "heal amt"] assms
    by (auto simp: btnHeal_click_def hp_ok_heal split: if_splits option.splits)
next
  assume "btnShortRest_click input rolls s = Inr s'"
  then show "\<forall>c\<in>set (characters s'). hp_ok c"
    using update_first_preserves [OF assms, of "shortRest (the input) rolls"] assms
    by (auto simp: btnShortRest_click_def hp_ok_shortRest split: if_splits option.splits)
next
  assume "btnLongRest_click s = Inr s'"
  then show "\<forall>c\<in>set (characters s'). hp_ok c"
    using update_first_preserves [OF assms, of longRest] assms
    by (auto simp: btnLongRest_click_def hp_ok_longRest split: if_splits option.splits)
qed

theorem hp_invariant_witness:
  "characters seren_page = [seren] \<and> hp_ok seren \<and>
   btnDamage_click (Some 30) 3 seren_page =
     Inr (seren_page\<lparr>characters := [seren\<lparr>hp := 0, concentratingOn := None\<rparr>]\<rparr>) \<and>
   hp_ok (seren\<lparr>hp := 0, concentratingOn := None\<rparr>) \<and>
   btnHeal_click (Some 30) seren_page = Inr (seren_page\<lparr>characters := [seren\<lparr>hp := 22\<rparr>]\<rparr>) \<and>
   hp_ok (seren\<lparr>hp := 22\<rparr>) \<and>
   btnShortRest_click (Some 2) (\<lambda>_. 5) seren_page =
     Inr (seren_page\<lparr>characters := [seren\<lparr>hp := 22, hitDice := 1\<rparr>]\<rparr>) \<and>
   hp_ok (seren\<lparr>hp := 22, hitDice := 1\<rparr>) \<and>
   btnLongRest_click seren_page = Inr (seren_page\<lparr>characters := [longRest seren]\<rparr>) \<and>
   hp_ok (longRest seren)"
proof -
  have ok: "\<forall>c\<in>set (characters seren_page). hp_ok c"
    by (simp add: seren_page_def seren_def hp_ok_def)
  have d: "btnDamage_click (Some 30) 3 seren_page =
      Inr (seren_page\<lparr>characters := [seren\<lparr>hp := 0, concentratingOn := None\<rparr>]\<rparr>)"
    by (simp add: btnDamage_click_def seren_page_def truthy_def seren_def damage_def
        floor_half abilityMod_div calcProf_def)
  have h: "btnHeal_click (Some 30) seren_page =
      Inr (seren_page\<lparr>characters := [seren\<lparr>hp := 22\<rparr>]\<rparr>)"
    by (simp add: btnHeal_click_def seren_page_def truthy_def seren_def heal_def)
  have r: "btnShortRest_click (Some 2) (\<lambda>_. 5) seren_page =
      Inr (seren_page\<lparr>characters := [seren\<lparr>hp := 22, hitDice := 1\<rparr>]\<rparr>)"
    by (simp add: btnShortRest_click_def seren_page_def truthy_def seren_def shortRest_def
        toSpend_def maxPossible_def js_or_def rest_total_sum numeral_2_eq_2)
  have l: "btnLongRest_click seren_page = Inr (seren_page\<lparr>characters := [longRest seren]\<rparr>)"
    by (simp add: btnLongRest_click_def seren_page_def truthy_def seren_def)
  show ?thesis
    using hp_invariant [OF ok, of 30 3 "seren_page\<lparr>characters := [seren\<lparr>hp := 0, concentratingOn := None\<rparr>]\<rparr>" 0 "None" "\<lambda>_. 0"]
      hp_invariant [OF ok, of 0 0 "seren_page\<lparr>characters := [seren\<lparr>hp := 22\<rparr>]\<rparr>" 30 "None" "\<lambda>_. 0"]
      hp_invariant [OF ok, of 0 0 "seren_page\<lparr>characters := [seren\<lparr>hp := 22, hitDice := 1\<rparr>]\<rparr>" 0 "Some 2" "\<lambda>_. 5"]
      hp_invariant [OF ok, of 0 0 "seren_page\<lparr>characters := [longRest seren]\<rparr>" 0 "None" "\<lambda>_. 0"]
      ok d h r l
    by (simp add: seren_page_def)
qed

section \<open>The quest tracker\<close>



















section \<open>The global timeline\<close>

lemma js_insert_insort: "js_insert by_ts_desc x ys = insort_key (\<lambda>e. - tts e) x ys"
  by (induction ys) (simp_all add: by_ts_desc_def)

lemma js_sort_sort_key: "js_sort by_ts_desc xs = sort_key (\<lambda>e. - tts e) xs"
  unfolding js_sort_def sort_key_def
  by (induction xs) (simp_all add: js_insert_insort)

lemma push_events: "foldl (\<lambda>acc ev. acc @ [f ev]) acc es = acc @ map f es"
  by (induction es arbitrary: acc) simp_all

lemma push_quest_entries: "push_quest acc q = acc @ quest_entries q"
  by (simp add: push_quest_def quest_entries_def push_events)

lemma collect_concat: "foldl push_quest acc qs = acc @ concat (map quest_entries qs)"
  by (induction qs arbitrary: acc) (simp_all add: push_quest_entries)

lemma timeline_sorted_concat:
  "renderGlobalTimeline qs = sort_key (\<lambda>e. - tts e) (concat (map quest_entries qs))"
  by (simp add: renderGlobalTimeline_def js_sort_sort_key collect_concat)

lemma sorted_desc: "sorted (map (\<lambda>e. - tts e) xs) \<Longrightarrow> sorted_wrt (\<lambda>a b. tts b \<le> tts a) xs"
  by (induction xs) auto

lemma filter_title_entries:
  "filter (\<lambda>e. tquest e = t) (quest_entries q) = (if title q = t then quest_entries q else [])"
  by (auto simp: quest_entries_def entry_of_event_def created_entry_def filter_empty_conv)

lemma count_title:
  "length (filter (\<lambda>e. tquest e = t) (concat (map quest_entries qs)))
     = (\<Sum>q\<leftarrow>filter (\<lambda>q. title q = t) qs. length (events_or_empty q) + 1)"
  by (induction qs) (simp_all add: filter_title_entries, simp add: quest_entries_def)

text \<open>
  C1. The rendered timeline holds exactly the entries collected quest by quest: adding a
  quest \<open>q\<close> with events \<open>E\<close> adds \<open>E\<close> verbatim (each with the quest's title) and one
  synthetic creation entry stamped with the quest's creation time, \<open>len(E) + 1\<close> entries;
  the entries carrying a title are those of the quests with that title. The result is
  sorted by timestamp, newest first, and entries with equal timestamps keep the order in
  which they were collected.
\<close>

theorem global_timeline:
  "mset (renderGlobalTimeline qs) = mset (concat (map quest_entries qs)) \<and>
   mset (renderGlobalTimeline (qs @ [q]))
     = mset (renderGlobalTimeline qs)
       + mset (map (entry_of_event (title q)) (events_or_empty q)) + {#created_entry q#} \<and>
   length (renderGlobalTimeline (qs @ [q]))
     = length (renderGlobalTimeline qs) + (length (events_or_empty q) + 1) \<and>
   map event_of_entry (map (entry_of_event (title q)) (events_or_empty q)) = events_or_empty q \<and>
   tts (created_entry q) = created q \<and>
   length (filter (\<lambda>e. tquest e = t) (renderGlobalTimeline qs))
     = (\<Sum>q\<leftarrow>filter (\<lambda>q. title q = t) qs. length (events_or_empty q) + 1) \<and>
   sorted_wrt (\<lambda>a b. tts b \<le> tts a) (renderGlobalTimeline qs) \<and>
   filter (\<lambda>e. tts e = ts) (renderGlobalTimeline qs)
     = filter (\<lambda>e. tts e = ts) (foldl push_quest [] qs)"
proof (intro conjI)
  show "mset (renderGlobalTimeline qs) = mset (concat (map quest_entries qs))"
    by (simp add: timeline_sorted_concat)
  show "mset (renderGlobalTimeline (qs @ [q]))
     = mset (renderGlobalTimeline qs)
       + mset (map (entry_of_event (title q)) (events_or_empty q)) + {#created_entry q#}"
    by (simp add: timeline_sorted_concat quest_entries_def)
  have "length (renderGlobalTimeline (qs @ [q])) = size (mset (renderGlobalTimeline (qs @ [q])))"
    by simp
  also have "\<dots> = length (renderGlobalTimeline qs) + (length (events_or_empty q) + 1)"
    unfolding timeline_sorted_concat by (simp add: quest_entries_def)
  finally show "length (renderGlobalTimeline (qs @ [q]))
     = length (renderGlobalTimeline qs) + (length (events_or_empty q) + 1)" .
  show "map event_of_entry (map (entry_of_event (title q)) (events_or_empty q)) = events_or_empty q"
    by (simp add: event_of_entry_def entry_of_event_def o_def map_idI)
  show "tts (created_entry q) = created q"
    by (simp add: created_entry_def)
  have "length (filter (\<lambda>e. tquest e = t) (renderGlobalTimeline qs))
      = size (filter_mset (\<lambda>e. tquest e = t) (mset (renderGlobalTimeline qs)))"
    by (metis mset_filter size_mset)
  also have "\<dots> = length (filter (\<lambda>e. tquest e = t) (concat (map quest_entries qs)))"
    by (simp add: timeline_sorted_concat flip: mset_filter)
  finally show "length (filter (\<lambda>e. tquest e = t) (renderGlobalTimeline qs))
     = (\<Sum>q\<leftarrow>filter (\<lambda>q. title q = t) qs. length (events_or_empty q) + 1)"
    by (simp add: count_title)
  show "sorted_wrt (\<lambda>a b. tts b \<le> tts a) (renderGlobalTimeline qs)"
    by (rule sorted_desc) (simp add: timeline_sorted_concat)
  have "filter (\<lambda>e. - tts e = - ts) (renderGlobalTimeline qs)
     = filter (\<lambda>e. - tts e = - ts) (concat (map quest_entries qs))"
    unfolding timeline_sorted_concat by (rule sort_key_stable)
  then show "filter (\<lambda>e. tts e = ts) (renderGlobalTimeline qs)
     = filter (\<lambda>e. tts e = ts) (foldl push_quest [] qs)"
    by (simp add: collect_concat)
qed

theorem global_timeline_witness:
  "length (renderGlobalTimeline ([vault] @ [lighthouse])) = 3 \<and>
   sorted_wrt (\<lambda>a b. tts b \<le> tts a) (renderGlobalTimeline [vault, lighthouse]) \<and>
   length (filter (\<lambda>e. tquest e = ''The Whispering Vault'')
             (renderGlobalTimeline [vault, lighthouse])) = 2 \<and>
   map tid (renderGlobalTimeline [vault, lighthouse])
     = [''q_trapdoor'', ''c_q_light'', ''c_q_vault''] \<and>
   map tts (renderGlobalTimeline [vault, lighthouse]) = [2000, 2000, 1000]"
proof -
  have r: "renderGlobalTimeline [vault, lighthouse]
      = [entry_of_event (title vault) (hd (events_or_empty vault)), created_entry lighthouse,
         created_entry vault]"
    by (simp add: renderGlobalTimeline_def js_sort_def push_quest_def events_or_empty_def
        vault_def lighthouse_def by_ts_desc_def entry_of_event_def created_entry_def)
  have v: "length (renderGlobalTimeline [vault]) = 2"
    by (simp add: renderGlobalTimeline_def js_sort_def push_quest_def events_or_empty_def
        vault_def by_ts_desc_def entry_of_event_def created_entry_def)
  have ev: "length (events_or_empty vault) = 1"
    by (simp add: events_or_empty_def vault_def)
  have el: "length (events_or_empty lighthouse) = 0"
    by (simp add: events_or_empty_def lighthouse_def)
  have tv: "filter (\<lambda>q. title q = ''The Whispering Vault'') [vault, lighthouse] = [vault]"
    by (simp add: vault_def lighthouse_def)
  note t1 = global_timeline [of "[vault]" lighthouse "''The Whispering Vault''" 2000]
  note t2 = global_timeline [of "[vault, lighthouse]" lighthouse "''The Whispering Vault''" 2000]
  have a: "length (renderGlobalTimeline ([vault] @ [lighthouse])) = 3"
    using t1 [THEN conjunct2, THEN conjunct2, THEN conjunct1] by (simp only: v el)
  have b: "sorted_wrt (\<lambda>a b. tts b \<le> tts a) (renderGlobalTimeline [vault, lighthouse])"
    using t2 by (elim conjE)
  have c: "length (filter (\<lambda>e. tquest e = ''The Whispering Vault'')
             (renderGlobalTimeline [vault, lighthouse])) = 2"
    using t2 [THEN conjunct2, THEN conjunct2, THEN conjunct2, THEN conjunct2, THEN conjunct2,
        THEN conjunct1]
    by (simp only: tv ev list.map sum_list.Cons sum_list.Nil)
  have d: "map tid (renderGlobalTimeline [vault, lighthouse])
     = [''q_trapdoor'', ''c_q_light'', ''c_q_vault'']"
    unfolding r
    by (simp add: vault_def lighthouse_def entry_of_event_def created_entry_def
        events_or_empty_def)
  have e: "map tts (renderGlobalTimeline [vault, lighthouse]) = [2000, 2000, 1000]"
    unfolding r
    by (simp add: vault_def lighthouse_def entry_of_event_def created_entry_def
        events_or_empty_def)
  show ?thesis by (intro conjI) (rule a, rule b, rule c, rule d, rule e)
qed

section \<open>The transcription controls\<close>

text \<open>
  C2, as the code has it. Start leads from idle and from paused to recording and logs
  "Transcription started." in both cases; pause/resume leads from recording to paused
  ("paused") and from paused to recording ("resumed"); stop leads from recording and from
  paused to idle ("stopped"). Start from recording, pause/resume from idle and stop from idle
  leave the page as it is, log included. The small client appends every entry; the main log
  client differs in the start handler only, which inserts its entry at the top.
\<close>

theorem transcription_transitions:
  "ds_click Start now (s\<lparr>txState := Idle\<rparr>)
     = s\<lparr>txState := Recording,
         logEl := logEl s @ [SystemMsg now ''System'' ''<em>Transcription started.</em>'']\<rparr> \<and>
   ds_click Start now (s\<lparr>txState := Paused\<rparr>)
     = s\<lparr>txState := Recording,
         logEl := logEl s @ [SystemMsg now ''System'' ''<em>Transcription started.</em>'']\<rparr> \<and>
   ds_click Start now (s\<lparr>txState := Recording\<rparr>) = s\<lparr>txState := Recording\<rparr> \<and>
   click Start now (s\<lparr>txState := Idle\<rparr>)
     = s\<lparr>txState := Recording, logEl := StartedMsg now # logEl s\<rparr> \<and>
   click Start now (s\<lparr>txState := Paused\<rparr>)
     = s\<lparr>txState := Recording, logEl := StartedMsg now # logEl s\<rparr> \<and>
   click Start now (s\<lparr>txState := Recording\<rparr>) = s\<lparr>txState := Recording\<rparr> \<and>
   click PauseResume now (s\<lparr>txState := Recording\<rparr>)
     = s\<lparr>txState := Paused,
         logEl := logEl s @ [SystemMsg now ''System'' ''<em>Transcription paused.</em>'']\<rparr> \<and>
   click PauseResume now (s\<lparr>txState := Paused\<rparr>)
     = s\<lparr>txState := Recording,
         logEl := logEl s @ [SystemMsg now ''System'' ''<em>Transcription resumed.</em>'']\<rparr> \<and>
   click PauseResume now (s\<lparr>txState := Idle\<rparr>) = s\<lparr>txState := Idle\<rparr> \<and>
   click Stop now (s\<lparr>txState := Recording\<rparr>)
     = s\<lparr>txState := Idle,
         logEl := logEl s @ [SystemMsg now ''System'' ''<em>Transcription stopped.</em>'']\<rparr> \<and>
   click Stop now (s\<lparr>txState := Paused\<rparr>)
     = s\<lparr>txState := Idle,
         logEl := logEl s @ [SystemMsg now ''System'' ''<em>Transcription stopped.</em>'']\<rparr> \<and>
   click Stop now (s\<lparr>txState := Idle\<rparr>) = s\<lparr>txState := Idle\<rparr> \<and>
   ds_click PauseResume now s = click PauseResume now s \<and>
   ds_click Stop now s = click Stop now s"
  by (simp add: ds_btnStart_click_def btnStart_click_def btnPause_click_def btnStop_click_def
      addLog_def addLogMessage_def setState_def)

theorem transcription_transitions_witness:
  "click PauseResume ''19:31'' (empty_page\<lparr>txState := Paused\<rparr>)
     = empty_page\<lparr>txState := Recording,
         logEl := [SystemMsg ''19:31'' ''System'' ''<em>Transcription resumed.</em>'']\<rparr> \<and>
   click Stop ''19:32'' (empty_page\<lparr>txState := Idle\<rparr>) = empty_page"
  using transcription_transitions [of "''19:31''" empty_page]
    transcription_transitions [of "''19:32''" empty_page]
  by (simp add: empty_page_def)

text \<open>
  C2 as stated fails at \<open>start\<close> from \<open>paused\<close>: the entry logged is "Transcription started.",
  in both clients, not a "resumed" entry.
\<close>

theorem start_from_paused_logs_started:
  "ds_click Start ''19:30'' (empty_page\<lparr>txState := Paused\<rparr>)
     = empty_page\<lparr>txState := Recording,
         logEl := [SystemMsg ''19:30'' ''System'' ''<em>Transcription started.</em>'']\<rparr> \<and>
   click Start ''19:30'' (empty_page\<lparr>txState := Paused\<rparr>)
     = empty_page\<lparr>txState := Recording, logEl := [StartedMsg ''19:30'']\<rparr> \<and>
   ds_click Start ''19:30'' (empty_page\<lparr>txState := Paused\<rparr>)
     \<noteq> empty_page\<lparr>txState := Recording,
         logEl := [SystemMsg ''19:30'' ''System'' ''<em>Transcription resumed.</em>'']\<rparr>"
  by (simp add: ds_btnStart_click_def btnStart_click_def addLog_def addLogMessage_def
      setState_def empty_page_def)


section \<open>The message router\<close>

lemma keep_two_take: "keep_two xs = take 2 xs"
proof (induction xs rule: keep_two.induct)
  case (1 xs)
  show ?case
  proof (cases "length xs > 2")
    case True
    then have "keep_two xs = take 2 (butlast xs)"
      using "1" by (subst keep_two.simps) simp
    also have "\<dots> = take 2 xs"
      using True by (simp add: take_butlast)
    finally show ?thesis .
  next
    case False
    then show ?thesis by (subst keep_two.simps) simp
  qed
qed

lemma js_prop_not_null: "js_prop m k = Some v \<Longrightarrow> m \<noteq> JNull"
  by (cases m) simp_all

lemma quest_update_step:
  assumes "js_prop m ''heading'' = Some (JStr ''Quest Update'')"
  shows "ws_onmessage t (Wellformed m) s =
           Inr (s\<lparr>logEl := QuestUpdateMsg t (js_prop m ''quest_name'') (js_prop m ''content'')
                              # logEl s,
                   rail := map_option
                     (\<lambda>items. \<lparr>ttime = t, badge = ''Quest'', icon = [],
                                 ititle = js_prop m ''quest_name'', imeta = ''Quest Updated'',
                                 item_index = length items\<rparr> # items) (rail s),
                   questList := take 2 (QuestDiv ''magnifier'' (js_prop m ''quest_name'')
                                          (js_prop m ''content'') # questList s)\<rparr>)"
  using assms js_prop_not_null [OF assms]
  by (cases "rail s")
     (simp_all add: ws_onmessage_def JSON_parse_def addQuest_def addTimelineEvent_def
        addLogMessage_def keep_two_take)

lemma take_two_cons: "take 2 (x # take 2 (y # ys)) = [x, y]"
  by (simp add: numeral_2_eq_2)

lemma quest_update_heading: "js_prop (quest_update n c) ''heading'' = Some (JStr ''Quest Update'')"
  by (simp add: quest_update_def)

text \<open>
  C3. A frame whose heading is exactly "Quest Update" puts one quest-update entry into the
  log, one item tagged "Quest" on the timeline rail of a page that has one, and one entry at
  the front of the quest list, which keeps its first two children; nothing else of the page
  changes, and the handler returns there. After three such frames the quest list is the
  entries of the last two, the newest first, whatever it held before.
\<close>

theorem quest_update_routing:
  assumes "js_prop m1 ''heading'' = Some (JStr ''Quest Update'')"
    and "js_prop m2 ''heading'' = Some (JStr ''Quest Update'')"
    and "js_prop m3 ''heading'' = Some (JStr ''Quest Update'')"
  shows "ws_onmessage t1 (Wellformed m1) s =
           Inr (s\<lparr>logEl := QuestUpdateMsg t1 (js_prop m1 ''quest_name'') (js_prop m1 ''content'')
                              # logEl s,
                   rail := map_option
                     (\<lambda>items. \<lparr>ttime = t1, badge = ''Quest'', icon = [],
                                 ititle = js_prop m1 ''quest_name'', imeta = ''Quest Updated'',
                                 item_index = length items\<rparr> # items) (rail s),
                   questList := take 2 (QuestDiv ''magnifier'' (js_prop m1 ''quest_name'')
                                          (js_prop m1 ''content'') # questList s)\<rparr>) \<and>
         questList (ws_run [(t1, Wellformed m1), (t2, Wellformed m2), (t3, Wellformed m3)] s)
           = [QuestDiv ''magnifier'' (js_prop m3 ''quest_name'') (js_prop m3 ''content''),
              QuestDiv ''magnifier'' (js_prop m2 ''quest_name'') (js_prop m2 ''content'')] \<and>
         length (logEl (ws_run [(t1, Wellformed m1), (t2, Wellformed m2), (t3, Wellformed m3)] s))
           = length (logEl s) + 3 \<and>
         map_option length
             (rail (ws_run [(t1, Wellformed m1), (t2, Wellformed m2), (t3, Wellformed m3)] s))
           = map_option (\<lambda>items. length items + 3) (rail s)"
proof (intro conjI)
  let ?run = "ws_run [(t1, Wellformed m1), (t2, Wellformed m2), (t3, Wellformed m3)] s"
  show "ws_onmessage t1 (Wellformed m1) s =
           Inr (s\<lparr>logEl := QuestUpdateMsg t1 (js_prop m1 ''quest_name'') (js_prop m1 ''content'')
                              # logEl s,
                   rail := map_option
                     (\<lambda>items. \<lparr>ttime = t1, badge = ''Quest'', icon = [],
                                 ititle = js_prop m1 ''quest_name'', imeta = ''Quest Updated'',
                                 item_index = length items\<rparr> # items) (rail s),
                   questList := take 2 (QuestDiv ''magnifier'' (js_prop m1 ''quest_name'')
                                          (js_prop m1 ''content'') # questList s)\<rparr>)"
    by (rule quest_update_step [OF assms(1)])
  show "questList ?run
           = [QuestDiv ''magnifier'' (js_prop m3 ''quest_name'') (js_prop m3 ''content''),
              QuestDiv ''magnifier'' (js_prop m2 ''quest_name'') (js_prop m2 ''content'')]"
    by (simp add: quest_update_step [OF assms(1)] quest_update_step [OF assms(2)]
        quest_update_step [OF assms(3)] take_two_cons)
  show "length (logEl ?run) = length (logEl s) + 3"
    by (simp add: quest_update_step [OF assms(1)] quest_update_step [OF assms(2)]
        quest_update_step [OF assms(3)])
  show "map_option length (rail ?run) = map_option (\<lambda>items. length items + 3) (rail s)"
    by (cases "rail s")
       (simp_all add: quest_update_step [OF assms(1)] quest_update_step [OF assms(2)]
          quest_update_step [OF assms(3)])
qed

theorem quest_update_routing_witness:
  "js_prop (quest_update ''X'' ''Y'') ''heading'' = Some (JStr ''Quest Update'') \<and>
   ws_onmessage ''19:30'' (Wellformed (quest_update ''X'' ''Y'')) empty_page =
     Inr (empty_page\<lparr>logEl := [QuestUpdateMsg ''19:30'' (Some (JStr ''X'')) (Some (JStr ''Y''))],
            rail := Some [\<lparr>ttime = ''19:30'', badge = ''Quest'', icon = [],
                           ititle = Some (JStr ''X''), imeta = ''Quest Updated'',
                           item_index = 0\<rparr>],
            questList := [QuestDiv ''magnifier'' (Some (JStr ''X'')) (Some (JStr ''Y''))]\<rparr>) \<and>
   questList (ws_run [(''19:30'', Wellformed (quest_update ''X'' ''Y'')),
                      (''19:31'', Wellformed (quest_update ''X2'' ''Y2'')),
                      (''19:32'', Wellformed (quest_update ''X3'' ''Y3''))] empty_page)
     = [QuestDiv ''magnifier'' (Some (JStr ''X3'')) (Some (JStr ''Y3'')),
        QuestDiv ''magnifier'' (Some (JStr ''X2'')) (Some (JStr ''Y2''))] \<and>
   length (logEl (ws_run [(''19:30'', Wellformed (quest_update ''X'' ''Y'')),
                      (''19:31'', Wellformed (quest_update ''X2'' ''Y2'')),
                      (''19:32'', Wellformed (quest_update ''X3'' ''Y3''))] empty_page)) = 3"
proof -
  have q: "\<And>n c. js_prop (quest_update n c) ''quest_name'' = Some (JStr n)
                 \<and> js_prop (quest_update n c) ''content'' = Some (JStr c)"
    by (simp add: quest_update_def)
  have e: "logEl empty_page = [] \<and> rail empty_page = Some [] \<and> questList empty_page = []"
    by (simp add: empty_page_def)
  note T = quest_update_routing [OF quest_update_heading [of "''X''" "''Y''"]
      quest_update_heading [of "''X2''" "''Y2''"] quest_update_heading [of "''X3''" "''Y3''"],
      of "''19:30''" empty_page "''19:31''" "''19:32''"]
  have a: "ws_onmessage ''19:30'' (Wellformed (quest_update ''X'' ''Y'')) empty_page =
     Inr (empty_page\<lparr>logEl := [QuestUpdateMsg ''19:30'' (Some (JStr ''X'')) (Some (JStr ''Y''))],
            rail := Some [\<lparr>ttime = ''19:30'', badge = ''Quest'', icon = [],
                           ititle = Some (JStr ''X''), imeta = ''Quest Updated'',
                           item_index = 0\<rparr>],
            questList := [QuestDiv ''magnifier'' (Some (JStr ''X'')) (Some (JStr ''Y''))]\<rparr>)"
    using T [THEN conjunct1] by (simp add: q e numeral_2_eq_2)
  have b: "questList (ws_run [(''19:30'', Wellformed (quest_update ''X'' ''Y'')),
                      (''19:31'', Wellformed (quest_update ''X2'' ''Y2'')),
                      (''19:32'', Wellformed (quest_update ''X3'' ''Y3''))] empty_page)
     = [QuestDiv ''magnifier'' (Some (JStr ''X3'')) (Some (JStr ''Y3'')),
        QuestDiv ''magnifier'' (Some (JStr ''X2'')) (Some (JStr ''Y2''))]"
    using T [THEN conjunct2, THEN conjunct1] by (simp add: q del: ws_run.simps)
  have c: "length (logEl (ws_run [(''19:30'', Wellformed (quest_update ''X'' ''Y'')),
                      (''19:31'', Wellformed (quest_update ''X2'' ''Y2'')),
                      (''19:32'', Wellformed (quest_update ''X3'' ''Y3''))] empty_page)) = 3"
    using T [THEN conjunct2, THEN conjunct2, THEN conjunct1] by (simp add: e del: ws_run.simps)
  show ?thesis by (intro conjI) (rule quest_update_heading, rule a, rule b, rule c)
qed

text \<open>
  C4. The claim says that a frame that is not JSON is swallowed. The main log client calls
  \<open>JSON.parse\<close> outside any \<open>try\<close>: the \<open>SyntaxError\<close> leaves the handler, uncaught. The page
  is unchanged, and the next frame is handled. The live client, on the same socket
  endpoint, wraps its handler in \<open>try { ... } catch {}\<close> and does swallow the failure.
\<close>

theorem malformed_frame:
  "ws_onmessage t (Malformed txt) s = Inl SyntaxError \<and>
   uiWs_onmessage (Malformed txt) s = s \<and>
   ws_run [(t, Malformed txt)] s = s"
  by (simp add: ws_onmessage_def uiWs_onmessage_def JSON_parse_def)

text \<open>
  C10. When the heading of a parsed frame is not a string (absent, or any other value), the
  dispatch of the main log client reaches \<open>msg.heading.startsWith\<close> and throws a
  \<open>TypeError\<close>. A frame is ignored only when its heading is a string that no rule matches.
  The summary frames of the narration service have no heading.
\<close>

theorem dispatch_needs_string_heading:
  "((\<forall>h. js_prop msg ''heading'' \<noteq> Some (JStr h)) \<longrightarrow>
      ws_onmessage t (Wellformed msg) s = Inl TypeError) \<and>
   (js_prop msg ''heading'' = Some (JStr h) \<and> h \<noteq> ''Quest Update'' \<and>
    h \<noteq> ''World State Update'' \<and> \<not> startsWith h ''Character Action'' \<and>
    \<not> startsWith h ''Character Outcome'' \<longrightarrow>
      ws_onmessage t (Wellformed msg) s = Inr s)"
proof (intro conjI impI)
  assume a: "\<forall>h. js_prop msg ''heading'' \<noteq> Some (JStr h)"
  show "ws_onmessage t (Wellformed msg) s = Inl TypeError"
  proof (cases "js_prop msg ''heading''")
    case None
    then show ?thesis by (simp add: ws_onmessage_def JSON_parse_def)
  next
    case (Some v)
    with a show ?thesis
      by (cases v) (simp_all add: ws_onmessage_def JSON_parse_def)
  qed
next
  assume "js_prop msg ''heading'' = Some (JStr h) \<and> h \<noteq> ''Quest Update'' \<and>
    h \<noteq> ''World State Update'' \<and> \<not> startsWith h ''Character Action'' \<and>
    \<not> startsWith h ''Character Outcome''"
  then show "ws_onmessage t (Wellformed msg) s = Inr s"
    using js_prop_not_null [of msg "''heading''" "JStr h"]
    by (simp add: ws_onmessage_def JSON_parse_def)
qed

theorem dispatch_needs_string_heading_witness:
  "js_prop summary_frame ''heading'' = None \<and>
   ws_onmessage ''19:30'' (Wellformed summary_frame) empty_page = Inl TypeError \<and>
   ws_onmessage ''19:30''
     (Wellformed (JObj [(''heading'', JNum 7), (''content'', JStr ''x'')])) empty_page
     = Inl TypeError \<and>
   ws_onmessage ''19:30''
     (Wellformed (JObj [(''heading'', JStr ''Scene''), (''content'', JStr ''x'')])) empty_page
     = Inr empty_page"
proof -
  have 1: "\<forall>h. js_prop summary_frame ''heading'' \<noteq> Some (JStr h)"
    by (simp add: summary_frame_def)
  have 2: "\<forall>h. js_prop (JObj [(''heading'', JNum 7), (''content'', JStr ''x'')]) ''heading''
              \<noteq> Some (JStr h)"
    by simp
  have 3: "js_prop (JObj [(''heading'', JStr ''Scene''), (''content'', JStr ''x'')]) ''heading''
             = Some (JStr ''Scene'') \<and> ''Scene'' \<noteq> ''Quest Update'' \<and>
           ''Scene'' \<noteq> ''World State Update'' \<and> \<not> startsWith ''Scene'' ''Character Action'' \<and>
           \<not> startsWith ''Scene'' ''Character Outcome''"
    by (simp add: startsWith_def)
  have a: "ws_onmessage ''19:30'' (Wellformed summary_frame) empty_page = Inl TypeError"
    by (rule dispatch_needs_string_heading [THEN conjunct1, THEN mp, OF 1])
  have b: "ws_onmessage ''19:30''
     (Wellformed (JObj [(''heading'', JNum 7), (''content'', JStr ''x'')])) empty_page
     = Inl TypeError"
    by (rule dispatch_needs_string_heading [THEN conjunct1, THEN mp, OF 2])
  have c: "ws_onmessage ''19:30''
     (Wellformed (JObj [(''heading'', JStr ''Scene''), (''content'', JStr ''x'')])) empty_page
     = Inr empty_page"
    by (rule dispatch_needs_string_heading [THEN conjunct2, THEN mp, OF 3])
  have d: "js_prop summary_frame ''heading'' = None"
    by (simp add: summary_frame_def)
  show ?thesis by (intro conjI) (rule d, rule a, rule b, rule c)
qed

text \<open>The other rules of the router and the live client, on examples.\<close>

lemma summary_frame_live:
  "uiWs_onmessage (Wellformed summary_frame) empty_page
     = empty_page\<lparr>logEl := [SummaryMsg (JStr ''The party rests.'')]\<rparr>"
  by (simp add: uiWs_onmessage_def JSON_parse_def summary_frame_def addLogMessage_def
      or_else_def js_truthy_def empty_page_def)

lemma quest_update_live:
  "uiWs_onmessage (Wellformed (quest_update ''A<b'' ''Y'')) empty_page
     = empty_page\<lparr>questList := [QuestListItem ''A&lt;b'' ''Y''],
         toastRoot := Some [Toast (Some (JStr ''A<b'')) ''Y'']\<rparr>"
  by (simp add: uiWs_onmessage_def JSON_parse_def quest_update_def or_else_def js_truthy_def
      empty_page_def escapeHtml_def)

lemma character_action_example:
  "ws_onmessage ''19:30''
     (Wellformed (JObj [(''heading'', JStr ''Character Action: kyra ''),
                        (''content'', JStr ''Draws her sword'')])) empty_page
     = Inr (empty_page\<lparr>logEl := [PlayerMsg ''19:30'' ''K'' ''Action'' ''Kyra draws her sword'']\<rparr>)"
  by code_simp

lemma narrator_example:
  "ws_onmessage ''19:30''
     (Wellformed (JObj [(''heading'', JStr ''Character Outcome: Narrator''),
                        (''content'', JStr ''Fog''), (''location'', JStr ''Docks'')])) empty_page
     = Inr (empty_page\<lparr>logEl := [NarratorMsg ''19:30'' (Some (JStr ''Docks'')) (Some (JStr ''Fog''))]\<rparr>)"
  by code_simp

lemma world_update_example:
  "ws_onmessage ''19:30''
     (Wellformed (JObj [(''heading'', JStr ''World State Update''),
                        (''content'', JStr ''Night falls''), (''location'', JStr ''Docks'')]))
     empty_page
     = Inr (empty_page\<lparr>logEl := [WorldUpdateMsg ''19:30'' (Some (JStr ''Night falls''))],
              rail := Some [\<lparr>ttime = ''19:30'', badge = ''Event'', icon = [],
                             ititle = Some (JStr ''Docks''), imeta = ''Location Changed'',
                             item_index = 0\<rparr>]\<rparr>)"
  by (simp add: ws_onmessage_def JSON_parse_def addLogMessage_def addTimelineEvent_def
      empty_page_def)

lemma heading_without_colon:
  "ws_onmessage ''19:30''
     (Wellformed (JObj [(''heading'', JStr ''Character Action''), (''content'', JStr ''x'')]))
     empty_page = Inl TypeError"
  by (simp add: ws_onmessage_def JSON_parse_def startsWith_def split_second_def)

end
